theory Spec2Isabelle
  imports Main "HOL-Library.Word"
begin

section \<open>The CAN read path of the firmware (src/can/canread.cpp)\<close>

text \<open>
  The translation unit turns 64-bit CAN payloads into named values and hands them,
  serialised, to an output pipeline. Its functions work on structs through pointers; the
  model passes each struct in and returns the updated one. A pointer that may be NULL is
  an \<open>option\<close>, and a dereference of NULL, or a read of a local that was never assigned,
  is an error value.
\<close>

subsection \<open>Data\<close>

datatype error = NullDereference | UninitializedRead

definition bind_result :: "error + 'a \<Rightarrow> ('a \<Rightarrow> error + 'b) \<Rightarrow> error + 'b" where
  "bind_result m f = (case m of Inl e \<Rightarrow> Inl e | Inr x \<Rightarrow> f x)"

text \<open>
  \<open>float\<close> is the type variable \<open>'f\<close> and the frequency clock the type variable \<open>'c\<close>:
  the arithmetic and the comparisons of the former, and \<open>time::shouldTick\<close> on the
  latter, are operations of the platform (see \<open>env\<close> below).
\<close>

record ('f, 'c) CanSignal =
  genericName :: string
  bitPosition :: nat
  bitSize :: nat
  factor :: 'f
  offset :: 'f
  frequencyClock :: 'c
  sendSame :: bool
  forceSendChanged :: bool
  received :: bool
  lastValue :: 'f

record CanSignalState =
  state_value :: int
  state_name :: string

record CanBus =
  address :: int

text \<open>
  A message definition is identified by its bus and its id. The fields that
  \<open>CanSignal\<close> has too carry the prefix \<open>msg_\<close> here.
\<close>

record 'c CanMessageDefinition =
  msg_bus :: int
  msg_id :: "32 word"
  msg_frequencyClock :: 'c
  msg_forceSendChanged :: bool
  msg_lastValue :: "64 word"

datatype OutputFormat = JSON | PROTO

text \<open>
  The pipeline: its configured format, and the byte strings that
  \<open>pipeline::sendMessage\<close> was given, oldest first. The lines written by \<open>debug\<close> are
  kept beside them, since every function that logs holds the pipeline.
\<close>

record Pipeline =
  outputFormat :: OutputFormat
  sent :: "string list"
  debugLog :: "string list"

definition pipeline_sendMessage :: "Pipeline \<Rightarrow> string \<Rightarrow> Pipeline" where
  "pipeline_sendMessage pipeline bytes = pipeline\<lparr>sent := sent pipeline @ [bytes]\<rparr>"

definition debug :: "string \<Rightarrow> Pipeline \<Rightarrow> Pipeline" where
  "debug line pipeline = pipeline\<lparr>debugLog := debugLog pipeline @ [line]\<rparr>"

text \<open>
  \<open>openxc_VehicleMessage\<close> is a tagged struct: a \<open>type\<close> tag and, per variant, a
  presence flag and a sub-struct. Each function of this file that builds one sets the tag,
  the flags and the fields of exactly one variant, so a message is the variant.
\<close>

datatype 'f VehicleMessage =
  NumericalMessage string 'f
| BooleanMessage string bool
| StringMessage string string
| RawMessage int "32 word" "64 word"

datatype 'f cJSON =
  cJSON_Number 'f
| cJSON_Bool bool
| cJSON_String string
| cJSON_Object "(string \<times> 'f cJSON) list"

text \<open>
  What the file calls and does not define: the timer, the bit-field extractor, float
  arithmetic, the state lookup of canutil, the allocator behind cJSON, the two encoders
  and the slot that registration hands out.
\<close>

record ('f, 'c) env =
  shouldTick :: "'c \<Rightarrow> bool \<times> 'c"
  getBitField :: "64 word \<Rightarrow> nat \<Rightarrow> nat \<Rightarrow> bool \<Rightarrow> 64 word"
  float_of_int :: "int \<Rightarrow> 'f"
  float_mul :: "'f \<Rightarrow> 'f \<Rightarrow> 'f"
  float_add :: "'f \<Rightarrow> 'f \<Rightarrow> 'f"
  float_ne :: "'f \<Rightarrow> 'f \<Rightarrow> bool"
  float_is_zero :: "'f \<Rightarrow> bool"
  lookupSignalState ::
    "'f \<Rightarrow> ('f, 'c) CanSignal \<Rightarrow> ('f, 'c) CanSignal list \<Rightarrow> CanSignalState option"
  object_alloc :: bool
  item_alloc :: bool
  cJSON_PrintUnformatted :: "'f cJSON \<Rightarrow> string option"
  pb_encode_delimited :: "'f VehicleMessage \<Rightarrow> string option"
  freeDefinition :: "'c CanMessageDefinition"

subsection \<open>Decoding and the rate gate\<close>

text \<open>
  \<open>decodeSignal\<close>: the raw field is a \<open>uint64_t\<close>; the product and the sum are float
  operations.
\<close>

definition decodeSignal :: "('f, 'c) env \<Rightarrow> ('f, 'c) CanSignal \<Rightarrow> 64 word \<Rightarrow> 'f" where
  "decodeSignal env signal data =
     (let rawValue = getBitField env data (bitPosition signal) (bitSize signal) True
      in float_add env (float_mul env (float_of_int env (uint rawValue)) (factor signal))
           (offset signal))"

text \<open>\<open>*send = b\<close> through a \<open>bool*\<close>.\<close>

definition store_send :: "bool option \<Rightarrow> bool \<Rightarrow> error + bool option" where
  "store_send send b = (case send of None \<Rightarrow> Inl NullDereference | Some _ \<Rightarrow> Inr (Some b))"

text \<open>
  \<open>preTranslate\<close>. \<open>shouldTick\<close> is the left operand of \<open>||\<close>, so it always runs and the
  clock it returns is always stored. The inner test reads \<open>send\<close>, the pointer, not the
  flag it points to.
\<close>

definition preTranslate ::
  "('f, 'c) env \<Rightarrow> ('f, 'c) CanSignal \<Rightarrow> 64 word \<Rightarrow> bool option
     \<Rightarrow> error + ('f \<times> bool option \<times> ('f, 'c) CanSignal)" where
  "preTranslate env signal data send =
     (let val = decodeSignal env signal data;
          (tick, clock) = shouldTick env (frequencyClock signal);
          signal1 = signal\<lparr>frequencyClock := clock\<rparr>
      in if tick \<or> (float_ne env val (lastValue signal1) \<and> forceSendChanged signal1) then
           if send \<noteq> None \<and> (\<not> received signal1 \<or> sendSame signal1
                 \<or> float_ne env val (lastValue signal1))
           then Inr (val, send, signal1\<lparr>received := True\<rparr>)
           else bind_result (store_send send False) (\<lambda>send1. Inr (val, send1, signal1))
         else bind_result (store_send send False) (\<lambda>send1. Inr (val, send1, signal1)))"

definition postTranslate :: "('f, 'c) CanSignal \<Rightarrow> 'f \<Rightarrow> ('f, 'c) CanSignal" where
  "postTranslate signal val = signal\<lparr>lastValue := val\<rparr>"

subsection \<open>Handlers\<close>

text \<open>
  A handler gets the signal, the table of its siblings, the decoded value and \<open>send\<close>;
  it returns its output and what \<open>send\<close> points to afterwards.
\<close>

type_synonym ('f, 'c, 'o) handler =
  "('f, 'c) CanSignal \<Rightarrow> ('f, 'c) CanSignal list \<Rightarrow> 'f \<Rightarrow> bool option
     \<Rightarrow> error + ('o \<times> bool option)"

definition passthroughHandler :: "('f, 'c, 'f) handler" where
  "passthroughHandler signal signals val send = Inr (val, send)"

definition booleanHandler :: "('f, 'c) env \<Rightarrow> ('f, 'c, bool) handler" where
  "booleanHandler env signal signals val send =
     Inr (if float_is_zero env val then False else True, send)"

definition ignoreHandler :: "('f, 'c, 'f) handler" where
  "ignoreHandler signal signals val send =
     bind_result (store_send send False) (\<lambda>send1. Inr (val, send1))"

definition stateHandler :: "('f, 'c) env \<Rightarrow> ('f, 'c, string option) handler" where
  "stateHandler env signal signals val send =
     (case lookupSignalState env val signal signals of
        Some signalState \<Rightarrow> Inr (Some (state_name signalState), send)
      | None \<Rightarrow> bind_result (store_send send False) (\<lambda>send1. Inr (None, send1)))"

subsection \<open>cJSON, as this file uses it\<close>

text \<open>
  A constructor returns NULL when its allocation fails. \<open>cJSON_AddItemToObject\<close> does
  nothing for a NULL item and appends the named item otherwise; its callers below hold a
  root they have checked, or dereference it as the library does.
\<close>

definition cJSON_CreateObject :: "('f, 'c) env \<Rightarrow> 'f cJSON option" where
  "cJSON_CreateObject env = (if object_alloc env then Some (cJSON_Object []) else None)"

definition cJSON_CreateNumber :: "('f, 'c) env \<Rightarrow> 'f \<Rightarrow> 'f cJSON option" where
  "cJSON_CreateNumber env num = (if item_alloc env then Some (cJSON_Number num) else None)"

definition cJSON_CreateBool :: "('f, 'c) env \<Rightarrow> bool \<Rightarrow> 'f cJSON option" where
  "cJSON_CreateBool env b = (if item_alloc env then Some (cJSON_Bool b) else None)"

definition cJSON_CreateString :: "('f, 'c) env \<Rightarrow> string \<Rightarrow> 'f cJSON option" where
  "cJSON_CreateString env s = (if item_alloc env then Some (cJSON_String s) else None)"

fun cJSON_AddItemToObject :: "'f cJSON \<Rightarrow> string \<Rightarrow> 'f cJSON option \<Rightarrow> 'f cJSON" where
  "cJSON_AddItemToObject object key None = object"
| "cJSON_AddItemToObject (cJSON_Object members) key (Some item) =
     cJSON_Object (members @ [(key, item)])"
| "cJSON_AddItemToObject object key (Some item) = object"

definition cJSON_AddStringToObject ::
  "('f, 'c) env \<Rightarrow> 'f cJSON \<Rightarrow> string \<Rightarrow> string \<Rightarrow> 'f cJSON" where
  "cJSON_AddStringToObject env object key s =
     cJSON_AddItemToObject object key (cJSON_CreateString env s)"

definition cJSON_AddNumberToObject ::
  "('f, 'c) env \<Rightarrow> 'f cJSON \<Rightarrow> string \<Rightarrow> 'f \<Rightarrow> 'f cJSON" where
  "cJSON_AddNumberToObject env object key num =
     cJSON_AddItemToObject object key (cJSON_CreateNumber env num)"

subsection \<open>Emission\<close>

definition BUS_FIELD_NAME :: string where "BUS_FIELD_NAME = ''bus''"
definition ID_FIELD_NAME :: string where "ID_FIELD_NAME = ''id''"
definition DATA_FIELD_NAME :: string where "DATA_FIELD_NAME = ''data''"
definition NAME_FIELD_NAME :: string where "NAME_FIELD_NAME = ''name''"
definition VALUE_FIELD_NAME :: string where "VALUE_FIELD_NAME = ''value''"
definition EVENT_FIELD_NAME :: string where "EVENT_FIELD_NAME = ''event''"

definition delimiter :: string where
  "delimiter = [CHR 0x0D, CHR 0x0A]"

text \<open>
  \<open>sendJSON\<close>. After the NULL test of \<open>root\<close> the serialised text is measured with
  \<open>strlen\<close> (for the size of the buffer) before it is compared with NULL; the buffer
  then holds the text followed by CR LF.
\<close>

definition strlen :: "string option \<Rightarrow> error + nat" where
  "strlen s = (case s of None \<Rightarrow> Inl NullDereference | Some cs \<Rightarrow> Inr (length cs))"

definition sendJSON :: "('f, 'c) env \<Rightarrow> 'f cJSON option \<Rightarrow> Pipeline \<Rightarrow> error + Pipeline" where
  "sendJSON env root pipeline =
     (case root of
        None \<Rightarrow> Inr (debug ''JSON object is NULL -- probably OOM'' pipeline)
      | Some r \<Rightarrow>
          (let message = cJSON_PrintUnformatted env r
           in bind_result (strlen message) (\<lambda>n.
                let messageWithDelimeter = take n (case message of Some cs \<Rightarrow> cs | None \<Rightarrow> [])
                      @ delimiter
                in if message \<noteq> None
                   then Inr (pipeline_sendMessage pipeline messageWithDelimeter)
                   else Inr (debug ''Converting JSON to string failed -- probably OOM''
                          pipeline))))"

definition sendProtobuf ::
  "('f, 'c) env \<Rightarrow> 'f VehicleMessage option \<Rightarrow> Pipeline \<Rightarrow> Pipeline" where
  "sendProtobuf env message pipeline =
     (case message of
        None \<Rightarrow> debug ''Message object is NULL'' pipeline
      | Some m \<Rightarrow>
          (case pb_encode_delimited env m of
             Some buffer \<Rightarrow> pipeline_sendMessage (debug ''Serialized to: '' pipeline) buffer
           | None \<Rightarrow> debug ''Error encoding protobuf: %s'' pipeline))"

definition sendJsonMessage ::
  "('f, 'c) env \<Rightarrow> string \<Rightarrow> 'f cJSON option \<Rightarrow> 'f cJSON option \<Rightarrow> Pipeline
     \<Rightarrow> error + Pipeline" where
  "sendJsonMessage env name val event pipeline =
     (case cJSON_CreateObject env of
        Some root \<Rightarrow>
          (let root1 = cJSON_AddStringToObject env root NAME_FIELD_NAME name;
               root2 = cJSON_AddItemToObject root1 VALUE_FIELD_NAME val;
               root3 = (if event \<noteq> None
                        then cJSON_AddItemToObject root2 EVENT_FIELD_NAME event else root2)
           in sendJSON env (Some root3) pipeline)
      | None \<Rightarrow> Inr (debug ''Unable to allocate a cJSON object - probably OOM'' pipeline))"

text \<open>The overload of \<open>sendMessage\<close> that takes cJSON items: it sends for JSON only.\<close>

definition sendMessage_cJSON ::
  "('f, 'c) env \<Rightarrow> string \<Rightarrow> 'f cJSON option \<Rightarrow> 'f cJSON option \<Rightarrow> Pipeline
     \<Rightarrow> error + Pipeline" where
  "sendMessage_cJSON env name val event pipeline =
     (if outputFormat pipeline = JSON then sendJsonMessage env name val event pipeline
      else Inr pipeline)"

text \<open>
  The overload that takes a message. In the JSON branch \<open>name\<close> and \<open>value\<close> are locals
  without initialiser; the \<open>default\<close> case of the switch logs, assigns neither and
  breaks, and the call of \<open>sendJsonMessage\<close> after the switch reads both.
\<close>

datatype 'a local_var = Uninitialized | Assigned 'a

definition read_local :: "'a local_var \<Rightarrow> error + 'a" where
  "read_local v = (case v of Uninitialized \<Rightarrow> Inl UninitializedRead | Assigned x \<Rightarrow> Inr x)"

definition sendMessage ::
  "('f, 'c) env \<Rightarrow> 'f VehicleMessage \<Rightarrow> Pipeline \<Rightarrow> error + Pipeline" where
  "sendMessage env message pipeline =
     (if outputFormat pipeline = PROTO then Inr (sendProtobuf env (Some message) pipeline)
      else
        (let (name, val, pipeline1) =
           (case message of
              NumericalMessage n v \<Rightarrow>
                (Assigned n, Assigned (cJSON_CreateNumber env v), pipeline)
            | BooleanMessage n b \<Rightarrow>
                (Assigned n, Assigned (cJSON_CreateBool env b), pipeline)
            | StringMessage n s \<Rightarrow>
                (Assigned n, Assigned (cJSON_CreateString env s), pipeline)
            | RawMessage b i d \<Rightarrow>
                (Uninitialized, Uninitialized,
                 debug ''Unrecognized message type, can't output JSON'' pipeline))
         in bind_result (read_local name) (\<lambda>name1.
            bind_result (read_local val) (\<lambda>val1.
              sendJsonMessage env name1 val1 None pipeline1))))"

definition sendNumericalMessage ::
  "('f, 'c) env \<Rightarrow> string \<Rightarrow> 'f \<Rightarrow> Pipeline \<Rightarrow> error + Pipeline" where
  "sendNumericalMessage env name val pipeline =
     sendMessage env (NumericalMessage name val) pipeline"

definition sendBooleanMessage ::
  "('f, 'c) env \<Rightarrow> string \<Rightarrow> bool \<Rightarrow> Pipeline \<Rightarrow> error + Pipeline" where
  "sendBooleanMessage env name val pipeline =
     sendMessage env (BooleanMessage name val) pipeline"

definition sendStringMessage ::
  "('f, 'c) env \<Rightarrow> string \<Rightarrow> string \<Rightarrow> Pipeline \<Rightarrow> error + Pipeline" where
  "sendStringMessage env name val pipeline =
     sendMessage env (StringMessage name val) pipeline"

definition sendEventedFloatMessage ::
  "('f, 'c) env \<Rightarrow> string \<Rightarrow> string \<Rightarrow> 'f \<Rightarrow> Pipeline \<Rightarrow> error + Pipeline" where
  "sendEventedFloatMessage env name val event pipeline =
     sendMessage_cJSON env name (cJSON_CreateString env val) (cJSON_CreateNumber env event)
       pipeline"

definition sendEventedBooleanMessage ::
  "('f, 'c) env \<Rightarrow> string \<Rightarrow> string \<Rightarrow> bool \<Rightarrow> Pipeline \<Rightarrow> error + Pipeline" where
  "sendEventedBooleanMessage env name val event pipeline =
     sendMessage_cJSON env name (cJSON_CreateString env val) (cJSON_CreateBool env event)
       pipeline"

definition sendEventedStringMessage ::
  "('f, 'c) env \<Rightarrow> string \<Rightarrow> string \<Rightarrow> string \<Rightarrow> Pipeline \<Rightarrow> error + Pipeline" where
  "sendEventedStringMessage env name val event pipeline =
     sendMessage_cJSON env name (cJSON_CreateString env val) (cJSON_CreateString env event)
       pipeline"

subsection \<open>Translating a signal\<close>

text \<open>
  The three overloads of \<open>translateSignal\<close> differ in the handler's output type and in
  the message they send. \<open>send\<close> is a local of the call, initialised to true, whose
  address goes to \<open>preTranslate\<close> and to the handler. Each returns the pipeline and the
  signal as the call leaves them.
\<close>

definition translateSignal_float ::
  "('f, 'c) env \<Rightarrow> Pipeline \<Rightarrow> ('f, 'c) CanSignal \<Rightarrow> 64 word \<Rightarrow> ('f, 'c, 'f) handler
     \<Rightarrow> ('f, 'c) CanSignal list \<Rightarrow> error + (Pipeline \<times> ('f, 'c) CanSignal)" where
  "translateSignal_float env pipeline signal data handler signals =
     bind_result (preTranslate env signal data (Some True)) (\<lambda>(val, send1, signal1).
     bind_result (handler signal1 signals val send1) (\<lambda>(processedValue, send2).
     bind_result
       (if send2 = Some True
        then sendNumericalMessage env (genericName signal1) processedValue pipeline
        else Inr pipeline) (\<lambda>pipeline1.
     Inr (pipeline1, postTranslate signal1 val))))"

definition translateSignal_string ::
  "('f, 'c) env \<Rightarrow> Pipeline \<Rightarrow> ('f, 'c) CanSignal \<Rightarrow> 64 word
     \<Rightarrow> ('f, 'c, string option) handler
     \<Rightarrow> ('f, 'c) CanSignal list \<Rightarrow> error + (Pipeline \<times> ('f, 'c) CanSignal)" where
  "translateSignal_string env pipeline signal data handler signals =
     bind_result (preTranslate env signal data (Some True)) (\<lambda>(val, send1, signal1).
     bind_result (handler signal1 signals val send1) (\<lambda>(stringValue, send2).
     bind_result
       (case stringValue of
          Some s \<Rightarrow>
            if send2 = Some True then sendStringMessage env (genericName signal1) s pipeline
            else Inr pipeline
        | None \<Rightarrow> Inr pipeline) (\<lambda>pipeline1.
     Inr (pipeline1, postTranslate signal1 val))))"

definition translateSignal_bool ::
  "('f, 'c) env \<Rightarrow> Pipeline \<Rightarrow> ('f, 'c) CanSignal \<Rightarrow> 64 word \<Rightarrow> ('f, 'c, bool) handler
     \<Rightarrow> ('f, 'c) CanSignal list \<Rightarrow> error + (Pipeline \<times> ('f, 'c) CanSignal)" where
  "translateSignal_bool env pipeline signal data handler signals =
     bind_result (preTranslate env signal data (Some True)) (\<lambda>(val, send1, signal1).
     bind_result (handler signal1 signals val send1) (\<lambda>(booleanValue, send2).
     bind_result
       (if send2 = Some True
        then sendBooleanMessage env (genericName signal1) booleanValue pipeline
        else Inr pipeline) (\<lambda>pipeline1.
     Inr (pipeline1, postTranslate signal1 val))))"

definition translateSignal ::
  "('f, 'c) env \<Rightarrow> Pipeline \<Rightarrow> ('f, 'c) CanSignal \<Rightarrow> 64 word
     \<Rightarrow> ('f, 'c) CanSignal list \<Rightarrow> error + (Pipeline \<times> ('f, 'c) CanSignal)" where
  "translateSignal env pipeline signal data signals =
     translateSignal_float env pipeline signal data passthroughHandler signals"

subsection \<open>The table of message definitions\<close>

text \<open>
  Modelled from the spec: \<open>lookupMessageDefinition\<close> and \<open>registerMessageDefinition\<close>
  are functions of canutil, which is not among the sources. The spec has a linear scan
  whose key is the bus and the id, and a bounded table in which registration fails when
  it is full. A found definition is its position in the table. Registration is not given
  the payload: the entry it adds is the free slot of the platform with the bus and the id
  written to it.
\<close>

record 'c MessageTable =
  definitions :: "'c CanMessageDefinition list"
  capacity :: nat

fun scan :: "int \<Rightarrow> 32 word \<Rightarrow> 'c CanMessageDefinition list \<Rightarrow> nat option" where
  "scan b i [] = None"
| "scan b i (m # ms) =
     (if msg_bus m = b \<and> msg_id m = i then Some 0 else map_option Suc (scan b i ms))"

definition lookupMessageDefinition ::
  "CanBus \<Rightarrow> 32 word \<Rightarrow> 'c MessageTable \<Rightarrow> nat option" where
  "lookupMessageDefinition bus i messages = scan (address bus) i (definitions messages)"

definition registerMessageDefinition ::
  "('f, 'c) env \<Rightarrow> CanBus \<Rightarrow> 32 word \<Rightarrow> 'c MessageTable \<Rightarrow> bool \<times> 'c MessageTable" where
  "registerMessageDefinition env bus i messages =
     (if length (definitions messages) < capacity messages
      then (True, messages\<lparr>definitions := definitions messages
              @ [(freeDefinition env)\<lparr>msg_bus := address bus, msg_id := i\<rparr>]\<rparr>)
      else (False, messages))"

text \<open>A write through the pointer that the lookup returned.\<close>

definition modify_definition ::
  "nat \<Rightarrow> ('c CanMessageDefinition \<Rightarrow> 'c CanMessageDefinition) \<Rightarrow> 'c MessageTable
     \<Rightarrow> 'c MessageTable" where
  "modify_definition k f messages =
     messages\<lparr>definitions := (definitions messages)[k := f (definitions messages ! k)]\<rparr>"

subsection \<open>Passthrough of raw frames\<close>

text \<open>
  The JSON form prints the eight bytes of the payload in the order they lie in memory;
  the targets are little-endian, so the least significant byte comes first.
\<close>

definition hex_digit :: "nat \<Rightarrow> char" where
  "hex_digit n = ''0123456789abcdef'' ! (n mod 16)"

definition hex_byte :: "8 word \<Rightarrow> string" where
  "hex_byte b = [hex_digit (unat b div 16), hex_digit (unat b mod 16)]"

definition frame_bytes :: "64 word \<Rightarrow> 8 word list" where
  "frame_bytes data = map (\<lambda>k. ucast (drop_bit (8 * k) data)) [0..<8]"

definition encodedData :: "64 word \<Rightarrow> string" where
  "encodedData data = ''0x'' @ concat (map hex_byte (frame_bytes data))"

definition passthroughMessageJson ::
  "('f, 'c) env \<Rightarrow> CanBus \<Rightarrow> 32 word \<Rightarrow> 64 word \<Rightarrow> Pipeline \<Rightarrow> error + Pipeline" where
  "passthroughMessageJson env bus i data pipeline =
     (case cJSON_CreateObject env of
        None \<Rightarrow> Inl NullDereference
      | Some root \<Rightarrow>
          (let root1 = cJSON_AddNumberToObject env root BUS_FIELD_NAME
                         (float_of_int env (address bus));
               root2 = cJSON_AddNumberToObject env root1 ID_FIELD_NAME
                         (float_of_int env (uint i));
               root3 = cJSON_AddStringToObject env root2 DATA_FIELD_NAME (encodedData data)
           in sendJSON env (Some root3) pipeline))"

definition passthroughMessageProtobuf ::
  "('f, 'c) env \<Rightarrow> CanBus \<Rightarrow> 32 word \<Rightarrow> 64 word \<Rightarrow> Pipeline \<Rightarrow> Pipeline" where
  "passthroughMessageProtobuf env bus i data pipeline =
     sendProtobuf env (Some (RawMessage (address bus) i data)) pipeline"

text \<open>
  \<open>passthroughMessage\<close>. \<open>message\<close> is the result of the lookup at entry and is not
  looked up again after a registration.
\<close>

definition passthroughMessage ::
  "('f, 'c) env \<Rightarrow> CanBus \<Rightarrow> 32 word \<Rightarrow> 64 word \<Rightarrow> 'c MessageTable \<Rightarrow> Pipeline
     \<Rightarrow> error + (Pipeline \<times> 'c MessageTable)" where
  "passthroughMessage env bus i data messages pipeline =
     (let message = lookupMessageDefinition bus i messages;
          (send, messages1, pipeline1) =
            (case message of
               None \<Rightarrow>
                 (let (registered, messages') = registerMessageDefinition env bus i messages
                  in (registered, messages',
                      debug ''Adding new message definition for message %d on bus %d''
                        pipeline))
             | Some k \<Rightarrow>
                 (let m = definitions messages ! k;
                      (tick, clock) = shouldTick env (msg_frequencyClock m);
                      messages' = modify_definition k
                        (\<lambda>d. d\<lparr>msg_frequencyClock := clock\<rparr>) messages
                  in if tick \<or> (data \<noteq> msg_lastValue m \<and> msg_forceSendChanged m)
                     then (True, messages', pipeline)
                     else (False, messages', pipeline)))
      in bind_result
           (if send then
              if outputFormat pipeline1 = PROTO
              then Inr (passthroughMessageProtobuf env bus i data pipeline1)
              else passthroughMessageJson env bus i data pipeline1
            else Inr pipeline1) (\<lambda>pipeline2.
         Inr (pipeline2,
              case message of
                Some k \<Rightarrow> modify_definition k (\<lambda>d. d\<lparr>msg_lastValue := data\<rparr>) messages1
              | None \<Rightarrow> messages1)))"

subsection \<open>A concrete platform, for evaluation\<close>

text \<open>
  Floats are integers (exact on the small values used below); a clock is the flag that
  says whether it is due, and ticking clears it; the bit field is counted from the most
  significant bit; allocation succeeds; the JSON printer writes compact text.
\<close>

fun commas :: "string list \<Rightarrow> string" where
  "commas [] = []"
| "commas [x] = x"
| "commas (x # y # ys) = x @ '','' @ commas (y # ys)"

fun digits :: "nat \<Rightarrow> nat \<Rightarrow> string" where
  "digits 0 n = []"
| "digits (Suc fuel) n =
     (if n < 10 then [char_of (48 + n)]
      else digits fuel (n div 10) @ [char_of (48 + n mod 10)])"

definition print_int :: "int \<Rightarrow> string" where
  "print_int k = (if k < 0 then ''-'' else []) @ digits 20 (nat \<bar>k\<bar>)"

fun print_json :: "int cJSON \<Rightarrow> string" where
  "print_json (cJSON_Number k) = print_int k"
| "print_json (cJSON_Bool b) = (if b then ''true'' else ''false'')"
| "print_json (cJSON_String s) = [CHR 0x22] @ s @ [CHR 0x22]"
| "print_json (cJSON_Object members) =
     ''{'' @ commas (map (\<lambda>kv. [CHR 0x22] @ fst kv @ [CHR 0x22] @ '':'' @ print_json (snd kv))
                    members) @ ''}''"

definition demo_env :: "(int, bool) env" where
  "demo_env = \<lparr>
     shouldTick = (\<lambda>due. (due, False)),
     getBitField =
       (\<lambda>data pos size bigEndian. take_bit size (drop_bit (64 - (pos + size)) data)),
     float_of_int = (\<lambda>k. k),
     float_mul = (\<lambda>a b. a * b),
     float_add = (\<lambda>a b. a + b),
     float_ne = (\<lambda>a b. a \<noteq> b),
     float_is_zero = (\<lambda>a. a = 0),
     lookupSignalState = (\<lambda>v signal signals. None),
     object_alloc = True,
     item_alloc = True,
     cJSON_PrintUnformatted = (\<lambda>root. Some (print_json root)),
     pb_encode_delimited = (\<lambda>m. Some ''pb''),
     freeDefinition = \<lparr>msg_bus = 0, msg_id = 0, msg_frequencyClock = False,
                        msg_forceSendChanged = False, msg_lastValue = 0\<rparr>\<rparr>"

definition demo_signal :: "(int, bool) CanSignal" where
  "demo_signal = \<lparr>genericName = ''speed'', bitPosition = 0, bitSize = 8, factor = 1,
     offset = 0, frequencyClock = True, sendSame = False, forceSendChanged = False,
     received = False, lastValue = 0\<rparr>"

definition idle_signal :: "(int, bool) CanSignal" where
  "idle_signal = demo_signal\<lparr>frequencyClock := False\<rparr>"

definition demo_frame :: "64 word" where
  "demo_frame = 0x6400000000000000"

definition demo_pipeline :: Pipeline where
  "demo_pipeline = \<lparr>outputFormat = JSON, sent = [], debugLog = []\<rparr>"

definition proto_pipeline :: Pipeline where
  "proto_pipeline = \<lparr>outputFormat = PROTO, sent = [], debugLog = []\<rparr>"

text \<open>The same platform with a serialiser that is out of memory.\<close>

definition failing_printer_env :: "(int, bool) env" where
  "failing_printer_env = demo_env\<lparr>cJSON_PrintUnformatted := (\<lambda>root. None)\<rparr>"

definition demo_bus :: CanBus where
  "demo_bus = \<lparr>address = 1\<rparr>"

definition demo_payload :: "64 word" where
  "demo_payload = 0x0102030405060708"

text \<open>
  A table with room for one definition and none yet, and the table that knows message
  0x42 of bus 1, with a clock that is not due.
\<close>

definition empty_table :: "bool MessageTable" where
  "empty_table = \<lparr>definitions = [], capacity = 1\<rparr>"

definition known_table :: "bool MessageTable" where
  "known_table = \<lparr>definitions = [\<lparr>msg_bus = 1, msg_id = 0x42, msg_frequencyClock = False,
       msg_forceSendChanged = False, msg_lastValue = 0\<rparr>], capacity = 1\<rparr>"

section \<open>Properties\<close>

subsection \<open>Auxiliary facts\<close>

lemma bind_result_Inr [simp]: "bind_result (Inr x) f = f x"
  by (simp add: bind_result_def)

lemma bind_result_Inl [simp]: "bind_result (Inl e) f = Inl e"
  by (simp add: bind_result_def)

lemma store_send_Some [simp]: "store_send (Some b) c = Inr (Some c)"
  by (simp add: store_send_def)

lemma store_send_None [simp]: "store_send None c = Inl NullDereference"
  by (simp add: store_send_def)

text \<open>\<open>preTranslate\<close> on a valid pointer, whatever the flag holds on entry.\<close>

lemma preTranslate_Some:
  "preTranslate env signal data (Some b) =
     (let val = decodeSignal env signal data;
          signal1 = signal\<lparr>frequencyClock := snd (shouldTick env (frequencyClock signal))\<rparr>
      in if (fst (shouldTick env (frequencyClock signal))
              \<or> (forceSendChanged signal \<and> float_ne env val (lastValue signal)))
            \<and> (\<not> received signal \<or> sendSame signal \<or> float_ne env val (lastValue signal))
         then Inr (val, Some b, signal1\<lparr>received := True\<rparr>)
         else Inr (val, Some False, signal1))"
  by (auto simp add: preTranslate_def Let_def split: prod.splits)

lemma preTranslate_never_sets:
  "\<exists>val b' signal'. preTranslate env signal data (Some b) = Inr (val, Some b', signal')
       \<and> (b' \<longrightarrow> b)"
  by (auto simp add: preTranslate_Some Let_def)

lemma stateHandler_never_sets:
  "\<exists>out b'. stateHandler env signal signals v (Some b) = Inr (out, Some b') \<and> (b' \<longrightarrow> b)"
  by (cases "lookupSignalState env v signal signals") (auto simp add: stateHandler_def)

lemma preTranslate_result:
  assumes "preTranslate env signal data (Some True) = Inr (val, send1, signal1)"
  shows "val = decodeSignal env signal data"
    and "send1 = Some True \<Longrightarrow> received signal1"
    and "lastValue signal1 = lastValue signal"
  using assms by (auto simp add: preTranslate_Some Let_def split: if_splits)

lemma postTranslate_fields [simp]:
  "lastValue (postTranslate signal val) = val"
  "received (postTranslate signal val) = received signal"
  by (simp_all add: postTranslate_def)

lemma translateSignal_float_after:
  assumes "preTranslate env signal data (Some True) = Inr (val, send1, signal1)"
    and "translateSignal_float env pipeline signal data handler signals = Inr (p', s')"
  shows "s' = postTranslate signal1 val"
  using assms
  by (auto simp add: translateSignal_float_def bind_result_def split: sum.splits if_splits)

lemma translateSignal_string_after:
  assumes "preTranslate env signal data (Some True) = Inr (val, send1, signal1)"
    and "translateSignal_string env pipeline signal data handler signals = Inr (p', s')"
  shows "s' = postTranslate signal1 val"
  using assms
  by (auto simp add: translateSignal_string_def bind_result_def split: sum.splits if_splits option.splits)

lemma translateSignal_bool_after:
  assumes "preTranslate env signal data (Some True) = Inr (val, send1, signal1)"
    and "translateSignal_bool env pipeline signal data handler signals = Inr (p', s')"
  shows "s' = postTranslate signal1 val"
  using assms
  by (auto simp add: translateSignal_bool_def bind_result_def split: sum.splits if_splits)

lemma translateSignal_float_veto:
  assumes "preTranslate env signal data (Some True) = Inr (val, send1, signal1)"
    and "handler signal1 signals val send1 = Inr (out, Some False)"
  shows "translateSignal_float env pipeline signal data handler signals
           = Inr (pipeline, postTranslate signal1 val)"
  using assms by (simp add: translateSignal_float_def)

lemma translateSignal_string_veto:
  assumes "preTranslate env signal data (Some True) = Inr (val, send1, signal1)"
    and "handler signal1 signals val send1 = Inr (out, Some False)"
  shows "translateSignal_string env pipeline signal data handler signals
           = Inr (pipeline, postTranslate signal1 val)"
  using assms by (simp add: translateSignal_string_def split: option.splits)

lemma translateSignal_bool_veto:
  assumes "preTranslate env signal data (Some True) = Inr (val, send1, signal1)"
    and "handler signal1 signals val send1 = Inr (out, Some False)"
  shows "translateSignal_bool env pipeline signal data handler signals
           = Inr (pipeline, postTranslate signal1 val)"
  using assms by (simp add: translateSignal_bool_def)

lemma sendJSON_print_NULL:
  "cJSON_PrintUnformatted env root = None \<Longrightarrow> sendJSON env (Some root) pipeline = Inl NullDereference"
  by (simp add: sendJSON_def strlen_def)

lemma sendJSON_print_ok:
  "cJSON_PrintUnformatted env root = Some text \<Longrightarrow>
   sendJSON env (Some root) pipeline = Inr (pipeline_sendMessage pipeline (text @ delimiter))"
  by (simp add: sendJSON_def strlen_def)

lemma sendJsonMessage_ok:
  assumes "object_alloc env" and "item_alloc env"
    and "cJSON_PrintUnformatted env
           (cJSON_Object [(''name'', cJSON_String name), (''value'', v), (''event'', e)]) = Some text"
  shows "sendJsonMessage env name (Some v) (Some e) pipeline
           = Inr (pipeline_sendMessage pipeline (text @ delimiter))"
  using assms
  by (simp add: sendJsonMessage_def cJSON_CreateObject_def cJSON_AddStringToObject_def
      cJSON_CreateString_def NAME_FIELD_NAME_def VALUE_FIELD_NAME_def EVENT_FIELD_NAME_def
      sendJSON_print_ok)

lemma scan_Some:
  "scan b i ms = Some k \<Longrightarrow> k < length ms \<and> msg_bus (ms ! k) = b \<and> msg_id (ms ! k) = i"
proof (induction ms arbitrary: k)
  case Nil
  then show ?case by simp
next
  case (Cons m ms)
  show ?case
  proof (cases "msg_bus m = b \<and> msg_id m = i")
    case True
    with Cons.prems show ?thesis by simp
  next
    case False
    with Cons.prems obtain j where j: "scan b i ms = Some j" and k: "k = Suc j"
      by auto
    from Cons.IH [OF j] k show ?thesis by simp
  qed
qed

lemma scan_same_keys:
  "map (\<lambda>m. (msg_bus m, msg_id m)) ms' = map (\<lambda>m. (msg_bus m, msg_id m)) ms
   \<Longrightarrow> scan b i ms' = scan b i ms"
proof (induction ms arbitrary: ms')
  case Nil
  then show ?case by simp
next
  case (Cons m ms)
  then obtain m' ms'' where ms': "ms' = m' # ms''" by (cases ms') auto
  with Cons.prems have "msg_bus m' = msg_bus m" "msg_id m' = msg_id m"
    and "map (\<lambda>m. (msg_bus m, msg_id m)) ms'' = map (\<lambda>m. (msg_bus m, msg_id m)) ms"
    by auto
  with Cons.IH [of ms''] ms' show ?case by simp
qed

lemma scan_update:
  assumes "msg_bus (f (ms ! k)) = msg_bus (ms ! k)" and "msg_id (f (ms ! k)) = msg_id (ms ! k)"
  shows "scan b i (ms[k := f (ms ! k)]) = scan b i ms"
proof (rule scan_same_keys)
  show "map (\<lambda>m. (msg_bus m, msg_id m)) (ms[k := f (ms ! k)])
          = map (\<lambda>m. (msg_bus m, msg_id m)) ms"
  proof (intro nth_equalityI)
    show "length (map (\<lambda>m. (msg_bus m, msg_id m)) (ms[k := f (ms ! k)]))
            = length (map (\<lambda>m. (msg_bus m, msg_id m)) ms)"
      by simp
  next
    fix j
    assume "j < length (map (\<lambda>m. (msg_bus m, msg_id m)) (ms[k := f (ms ! k)]))"
    then have j: "j < length ms" by simp
    show "map (\<lambda>m. (msg_bus m, msg_id m)) (ms[k := f (ms ! k)]) ! j
            = map (\<lambda>m. (msg_bus m, msg_id m)) ms ! j"
      using j assms by (cases "j = k") simp_all
  qed
qed

lemma lookup_modify:
  assumes "\<And>d. msg_bus (f d) = msg_bus d" and "\<And>d. msg_id (f d) = msg_id d"
  shows "lookupMessageDefinition bus i (modify_definition k f messages)
           = lookupMessageDefinition bus i messages"
  using assms by (simp add: lookupMessageDefinition_def modify_definition_def scan_update)

lemma lookup_Some:
  "lookupMessageDefinition bus i messages = Some k \<Longrightarrow>
     k < length (definitions messages)
     \<and> msg_bus (definitions messages ! k) = address bus
     \<and> msg_id (definitions messages ! k) = i"
  by (simp add: lookupMessageDefinition_def scan_Some)

lemma sendProtobuf_sent:
  "sent (sendProtobuf env (Some m) pipeline) =
     (case pb_encode_delimited env m of Some buffer \<Rightarrow> sent pipeline @ [buffer]
      | None \<Rightarrow> sent pipeline)"
  by (simp add: sendProtobuf_def pipeline_sendMessage_def debug_def split: option.splits)

lemma passthroughMessage_None:
  assumes "lookupMessageDefinition bus i messages = None"
  shows "passthroughMessage env bus i data messages pipeline =
     (let pipeline1 = debug ''Adding new message definition for message %d on bus %d'' pipeline
      in bind_result
           (if fst (registerMessageDefinition env bus i messages) then
              if outputFormat pipeline1 = PROTO
              then Inr (passthroughMessageProtobuf env bus i data pipeline1)
              else passthroughMessageJson env bus i data pipeline1
            else Inr pipeline1)
           (\<lambda>pipeline2. Inr (pipeline2, snd (registerMessageDefinition env bus i messages))))"
  using assms by (simp add: passthroughMessage_def Let_def split: prod.splits)

lemma passthroughMessage_Some:
  assumes "lookupMessageDefinition bus i messages = Some k"
  shows "passthroughMessage env bus i data messages pipeline =
     (let m = definitions messages ! k;
          messages1 = modify_definition k
            (\<lambda>d. d\<lparr>msg_frequencyClock := snd (shouldTick env (msg_frequencyClock m))\<rparr>)
            messages
      in bind_result
           (if fst (shouldTick env (msg_frequencyClock m))
                 \<or> (data \<noteq> msg_lastValue m \<and> msg_forceSendChanged m) then
              if outputFormat pipeline = PROTO
              then Inr (passthroughMessageProtobuf env bus i data pipeline)
              else passthroughMessageJson env bus i data pipeline
            else Inr pipeline)
           (\<lambda>pipeline2. Inr (pipeline2,
              modify_definition k (\<lambda>d. d\<lparr>msg_lastValue := data\<rparr>) messages1)))"
  using assms by (simp add: passthroughMessage_def Let_def split: prod.splits)

lemma passthroughMessage_not_sent:
  assumes "\<not> (case lookupMessageDefinition bus i messages of
               None \<Rightarrow> fst (registerMessageDefinition env bus i messages)
             | Some k \<Rightarrow>
                 fst (shouldTick env (msg_frequencyClock (definitions messages ! k)))
                 \<or> (msg_forceSendChanged (definitions messages ! k)
                       \<and> data \<noteq> msg_lastValue (definitions messages ! k)))"
  shows "\<exists>pipeline' messages'.
           passthroughMessage env bus i data messages pipeline = Inr (pipeline', messages')
           \<and> sent pipeline' = sent pipeline"
proof (cases "lookupMessageDefinition bus i messages")
  case None
  with assms show ?thesis
    by (simp add: passthroughMessage_None Let_def debug_def)
next
  case (Some k)
  with assms show ?thesis
    by (auto simp add: passthroughMessage_Some Let_def)
qed

lemma debug_fields [simp]:
  "outputFormat (debug line pipeline) = outputFormat pipeline"
  "sent (debug line pipeline) = sent pipeline"
  by (simp_all add: debug_def)

lemma passthroughMessageJson_ok:
  assumes "object_alloc env" and "item_alloc env"
    and "cJSON_PrintUnformatted env (cJSON_Object
           [(''bus'', cJSON_Number (float_of_int env (address bus))),
            (''id'', cJSON_Number (float_of_int env (uint i))),
            (''data'', cJSON_String (encodedData data))]) = Some printed"
  shows "passthroughMessageJson env bus i data pipeline
           = Inr (pipeline_sendMessage pipeline (printed @ delimiter))"
  using assms
  by (simp add: passthroughMessageJson_def cJSON_CreateObject_def cJSON_AddNumberToObject_def
      cJSON_AddStringToObject_def cJSON_CreateNumber_def cJSON_CreateString_def
      BUS_FIELD_NAME_def ID_FIELD_NAME_def DATA_FIELD_NAME_def sendJSON_print_ok)

lemma passthroughMessageProtobuf_ok:
  assumes "pb_encode_delimited env (RawMessage (address bus) i data) = Some buffer"
  shows "sent (passthroughMessageProtobuf env bus i data pipeline) = sent pipeline @ [buffer]"
  using assms by (simp add: passthroughMessageProtobuf_def sendProtobuf_sent)

lemma pipeline_sendMessage_sent [simp]:
  "sent (pipeline_sendMessage pipeline bytes) = sent pipeline @ [bytes]"
  by (simp add: pipeline_sendMessage_def)

lemma passthroughMessage_emitted:
  assumes due: "case lookupMessageDefinition bus i messages of
               None \<Rightarrow> fst (registerMessageDefinition env bus i messages)
             | Some k \<Rightarrow>
                 fst (shouldTick env (msg_frequencyClock (definitions messages ! k)))
                 \<or> (msg_forceSendChanged (definitions messages ! k)
                       \<and> data \<noteq> msg_lastValue (definitions messages ! k))"
    and proto: "outputFormat pipeline = PROTO \<longrightarrow>
           pb_encode_delimited env (RawMessage (address bus) i data) = Some emitted"
    and json: "outputFormat pipeline = JSON \<longrightarrow>
           object_alloc env \<and> item_alloc env
           \<and> (\<exists>printed. cJSON_PrintUnformatted env (cJSON_Object
                  [(''bus'', cJSON_Number (float_of_int env (address bus))),
                   (''id'', cJSON_Number (float_of_int env (uint i))),
                   (''data'', cJSON_String (encodedData data))]) = Some printed
                \<and> emitted = printed @ delimiter)"
  shows "\<exists>pipeline' messages'.
           passthroughMessage env bus i data messages pipeline = Inr (pipeline', messages')
           \<and> sent pipeline' = sent pipeline @ [emitted]"
proof (cases "outputFormat pipeline")
  case JSON
  with json obtain printed where ok: "object_alloc env" "item_alloc env"
    "cJSON_PrintUnformatted env (cJSON_Object
        [(''bus'', cJSON_Number (float_of_int env (address bus))),
         (''id'', cJSON_Number (float_of_int env (uint i))),
         (''data'', cJSON_String (encodedData data))]) = Some printed"
    and em: "emitted = printed @ delimiter"
    by auto
  note j = passthroughMessageJson_ok [OF ok]
  show ?thesis
  proof (cases "lookupMessageDefinition bus i messages")
    case None
    with due JSON em show ?thesis
      by (simp add: passthroughMessage_None Let_def j)
  next
    case (Some k)
    with due JSON em show ?thesis
      by (auto simp add: passthroughMessage_Some Let_def j)
  qed
next
  case PROTO
  with proto have enc: "pb_encode_delimited env (RawMessage (address bus) i data) = Some emitted"
    by simp
  note p = passthroughMessageProtobuf_ok [OF enc]
  show ?thesis
  proof (cases "lookupMessageDefinition bus i messages")
    case None
    with due PROTO show ?thesis
      by (simp add: passthroughMessage_None Let_def p)
  next
    case (Some k)
    with due PROTO show ?thesis
      by (auto simp add: passthroughMessage_Some Let_def p)
  qed
qed

lemma stateHandler_vetoed:
  "\<exists>out. stateHandler env signal signals v (Some False) = Inr (out, Some False)"
  by (cases "lookupSignalState env v signal signals") (simp_all add: stateHandler_def)

lemma vetoed_frame_not_sent:
  assumes pre: "preTranslate env signal data (Some True) = Inr (val, Some False, signal1)"
  shows "translateSignal env pipeline signal data signals
           = Inr (pipeline, signal1\<lparr>lastValue := val\<rparr>)"
    and "translateSignal_float env pipeline signal data ignoreHandler signals
           = Inr (pipeline, signal1\<lparr>lastValue := val\<rparr>)"
    and "translateSignal_bool env pipeline signal data (booleanHandler env) signals
           = Inr (pipeline, signal1\<lparr>lastValue := val\<rparr>)"
    and "translateSignal_string env pipeline signal data (stateHandler env) signals
           = Inr (pipeline, signal1\<lparr>lastValue := val\<rparr>)"
proof -
  show "translateSignal env pipeline signal data signals
           = Inr (pipeline, signal1\<lparr>lastValue := val\<rparr>)"
    unfolding translateSignal_def
    by (simp add: translateSignal_float_veto [OF pre] passthroughHandler_def postTranslate_def)
  show "translateSignal_float env pipeline signal data ignoreHandler signals
           = Inr (pipeline, signal1\<lparr>lastValue := val\<rparr>)"
    by (simp add: translateSignal_float_veto [OF pre] ignoreHandler_def postTranslate_def)
  show "translateSignal_bool env pipeline signal data (booleanHandler env) signals
           = Inr (pipeline, signal1\<lparr>lastValue := val\<rparr>)"
    by (simp add: translateSignal_bool_veto [OF pre] booleanHandler_def postTranslate_def)
  from stateHandler_vetoed [of env signal1 signals val] obtain out where
    "stateHandler env signal1 signals val (Some False) = Inr (out, Some False)" ..
  from translateSignal_string_veto [OF pre, where handler = "stateHandler env", OF this]
  show "translateSignal_string env pipeline signal data (stateHandler env) signals
           = Inr (pipeline, signal1\<lparr>lastValue := val\<rparr>)"
    by (simp add: postTranslate_def)
qed

lemma sendJSON_returns:
  assumes "\<forall>r. cJSON_PrintUnformatted env r \<noteq> None"
  shows "\<exists>p'. sendJSON env root pipeline = Inr p'"
proof (cases root)
  case None
  then show ?thesis by (simp add: sendJSON_def)
next
  case (Some r)
  from assms obtain printed where "cJSON_PrintUnformatted env r = Some printed"
    by auto
  with Some show ?thesis by (simp add: sendJSON_print_ok)
qed

lemma sendJsonMessage_returns:
  assumes "\<forall>r. cJSON_PrintUnformatted env r \<noteq> None"
  shows "\<exists>p'. sendJsonMessage env name val event pipeline = Inr p'"
  using sendJSON_returns [OF assms]
  by (simp add: sendJsonMessage_def Let_def split: option.splits)

lemma sendMessage_returns:
  assumes "\<forall>r. cJSON_PrintUnformatted env r \<noteq> None"
  shows "\<exists>p'. sendMessage env (NumericalMessage n v) pipeline = Inr p'"
    and "\<exists>p'. sendMessage env (BooleanMessage n b) pipeline = Inr p'"
    and "\<exists>p'. sendMessage env (StringMessage n s) pipeline = Inr p'"
  using sendJsonMessage_returns [OF assms]
  by (simp_all add: sendMessage_def read_local_def)

lemma translateSignal_float_returns:
  assumes pre: "preTranslate env signal data (Some True) = Inr (val, send1, signal1)"
    and pr: "\<forall>r. cJSON_PrintUnformatted env r \<noteq> None"
    and h: "handler signal1 signals val send1 = Inr (out, send2)"
  shows "\<exists>p'. translateSignal_float env pipeline signal data handler signals
           = Inr (p', signal1\<lparr>lastValue := val\<rparr>)"
proof (cases "send2 = Some True")
  case True
  from sendMessage_returns(1) [OF pr, of "genericName signal1" out pipeline]
  obtain p' where "sendMessage env (NumericalMessage (genericName signal1) out) pipeline = Inr p'" ..
  with True pre h show ?thesis
    by (simp add: translateSignal_float_def sendNumericalMessage_def postTranslate_def)
next
  case False
  with pre h show ?thesis
    by (simp add: translateSignal_float_def postTranslate_def)
qed

lemma translateSignal_bool_returns:
  assumes pre: "preTranslate env signal data (Some True) = Inr (val, send1, signal1)"
    and pr: "\<forall>r. cJSON_PrintUnformatted env r \<noteq> None"
    and h: "handler signal1 signals val send1 = Inr (out, send2)"
  shows "\<exists>p'. translateSignal_bool env pipeline signal data handler signals
           = Inr (p', signal1\<lparr>lastValue := val\<rparr>)"
proof (cases "send2 = Some True")
  case True
  from sendMessage_returns(2) [OF pr, of "genericName signal1" out pipeline]
  obtain p' where "sendMessage env (BooleanMessage (genericName signal1) out) pipeline = Inr p'" ..
  with True pre h show ?thesis
    by (simp add: translateSignal_bool_def sendBooleanMessage_def postTranslate_def)
next
  case False
  with pre h show ?thesis
    by (simp add: translateSignal_bool_def postTranslate_def)
qed

lemma translateSignal_string_returns:
  assumes pre: "preTranslate env signal data (Some True) = Inr (val, send1, signal1)"
    and pr: "\<forall>r. cJSON_PrintUnformatted env r \<noteq> None"
    and h: "handler signal1 signals val send1 = Inr (out, send2)"
  shows "\<exists>p'. translateSignal_string env pipeline signal data handler signals
           = Inr (p', signal1\<lparr>lastValue := val\<rparr>)"
proof (cases "send2 = Some True \<and> out \<noteq> None")
  case True
  then obtain s where s: "out = Some s" by auto
  from sendMessage_returns(3) [OF pr, of "genericName signal1" s pipeline]
  obtain p' where "sendMessage env (StringMessage (genericName signal1) s) pipeline = Inr p'" ..
  with True s pre h show ?thesis
    by (simp add: translateSignal_string_def sendStringMessage_def postTranslate_def)
next
  case False
  with pre h show ?thesis
    by (auto simp add: translateSignal_string_def postTranslate_def split: option.splits)
qed

lemmas passthrough_eval =
  passthroughMessage_def lookupMessageDefinition_def registerMessageDefinition_def
  modify_definition_def passthroughMessageProtobuf_def sendProtobuf_def
  pipeline_sendMessage_def debug_def

subsection \<open>The rate gate\<close>

text \<open>
  C1. Entered with \<open>*send = true\<close>, \<open>preTranslate\<close> returns the decoded value in every
  case, and leaves \<open>*send\<close> true exactly when (the clock is due, or \<open>forceSendChanged\<close>
  is set and the value differs from \<open>lastValue\<close>) and (the signal was never received, or
  \<open>sendSame\<close> is set, or the value differs from \<open>lastValue\<close>). In that case it sets
  \<open>received\<close>; in every other case \<open>*send\<close> is false and \<open>received\<close> is as it was. The
  clock is the one \<open>shouldTick\<close> left.
\<close>

theorem preTranslate_send_decision:
  "preTranslate env signal data (Some True) =
     (let val = decodeSignal env signal data;
          differs = float_ne env val (lastValue signal);
          due = fst (shouldTick env (frequencyClock signal));
          eligible = ((due \<or> (forceSendChanged signal \<and> differs))
                       \<and> (\<not> received signal \<or> sendSame signal \<or> differs));
          signal1 = signal\<lparr>frequencyClock := snd (shouldTick env (frequencyClock signal))\<rparr>
      in Inr (val, Some eligible, if eligible then signal1\<lparr>received := True\<rparr> else signal1))"
  by (auto simp add: preTranslate_Some Let_def)

text \<open>
  At the first frame of a signal whose clock is due the flag stays true; at the same
  frame again, with the value recorded and the clock due once more, it is cleared.
\<close>

theorem preTranslate_send_decision_witness:
  "preTranslate demo_env demo_signal demo_frame (Some True) =
     Inr (100, Some True, demo_signal\<lparr>frequencyClock := False, received := True\<rparr>)
   \<and> preTranslate demo_env
       (demo_signal\<lparr>received := True, lastValue := 100, frequencyClock := True\<rparr>)
       demo_frame (Some True) =
     Inr (100, Some False,
          demo_signal\<lparr>received := True, lastValue := 100, frequencyClock := False\<rparr>)"
  using preTranslate_send_decision [of demo_env demo_signal demo_frame]
    preTranslate_send_decision [of demo_env
      "demo_signal\<lparr>received := True, lastValue := 100, frequencyClock := True\<rparr>" demo_frame]
  by (simp add: decodeSignal_def demo_env_def demo_signal_def demo_frame_def)

text \<open>
  C2, as stated, fails: a signal that was never received, whose clock is not due and
  which does not force changed values, has \<open>*send\<close> cleared.
\<close>

theorem first_decode_not_due_counterexample:
  "received idle_signal = False
   \<and> preTranslate demo_env idle_signal demo_frame (Some True)
       = Inr (100, Some False, idle_signal)"
  by (simp add: preTranslate_Some decodeSignal_def demo_env_def idle_signal_def
      demo_signal_def demo_frame_def)

text \<open>
  C2, amended. For a signal that was never received, \<open>preTranslate\<close> entered with
  \<open>*send = true\<close> leaves it true exactly when the clock is due, or \<open>forceSendChanged\<close>
  is set and the value differs from \<open>lastValue\<close>; \<open>sendSame\<close> plays no part, and under a
  due clock neither does the comparison with \<open>lastValue\<close>.
\<close>

theorem first_decode_send_decision:
  assumes "\<not> received signal"
  shows "preTranslate env signal data (Some True) =
     (let val = decodeSignal env signal data;
          gate = (fst (shouldTick env (frequencyClock signal))
                   \<or> (forceSendChanged signal \<and> float_ne env val (lastValue signal)))
      in Inr (val, Some gate,
              signal\<lparr>frequencyClock := snd (shouldTick env (frequencyClock signal)),
                     received := gate\<rparr>))"
  using assms by (auto simp add: preTranslate_Some Let_def)

theorem first_decode_send_decision_witness:
  "\<not> received demo_signal
   \<and> preTranslate demo_env demo_signal demo_frame (Some True) =
       Inr (100, Some True, demo_signal\<lparr>frequencyClock := False, received := True\<rparr>)"
proof -
  have h: "\<not> received demo_signal" by (simp add: demo_signal_def)
  show ?thesis
    using h first_decode_send_decision [OF h, of demo_env demo_frame]
    by (simp add: decodeSignal_def demo_env_def demo_signal_def demo_frame_def)
qed

subsection \<open>Decoding\<close>

text \<open>
  C9. \<open>decodeSignal\<close> is the big-endian bit field of the frame, as a float, times the
  factor plus the offset; it returns a value only, and the value is the same for two
  signals that agree on bit position, bit size, factor and offset, whatever their clocks,
  flags and last values are.
\<close>

theorem decodeSignal_linear:
  "decodeSignal env signal data =
     float_add env
       (float_mul env
          (float_of_int env
             (uint (getBitField env data (bitPosition signal) (bitSize signal) True)))
          (factor signal))
       (offset signal)
   \<and> (bitPosition signal' = bitPosition signal \<and> bitSize signal' = bitSize signal
        \<and> factor signal' = factor signal \<and> offset signal' = offset signal
      \<longrightarrow> decodeSignal env signal' data = decodeSignal env signal data)"
  by (simp add: decodeSignal_def)

theorem decodeSignal_linear_witness:
  "decodeSignal demo_env demo_signal demo_frame = 100
   \<and> decodeSignal demo_env
       (demo_signal\<lparr>received := True, lastValue := 7, frequencyClock := False\<rparr>) demo_frame
     = 100"
  using decodeSignal_linear [of demo_env demo_signal demo_frame
      "demo_signal\<lparr>received := True, lastValue := 7, frequencyClock := False\<rparr>"]
  by (simp add: demo_env_def demo_signal_def demo_frame_def)

subsection \<open>The send flag only falls\<close>

text \<open>
  C10. On a valid \<open>send\<close>, \<open>preTranslate\<close> and each of the four handlers return, and the
  flag they leave is true only if it was true on entry: none of them writes true. A flag
  that is false on entry is therefore false on return. Hence a frame that \<open>preTranslate\<close>
  vetoes is not emitted under any of the four handlers: the call returns the pipeline as
  it was.
\<close>

theorem send_never_set:
  "(\<exists>val b' signal'. preTranslate env signal data (Some b) = Inr (val, Some b', signal')
       \<and> (b' \<longrightarrow> b))
   \<and> (\<exists>out b'. passthroughHandler signal signals v (Some b) = Inr (out, Some b')
         \<and> (b' \<longrightarrow> b))
   \<and> (\<exists>out b'. booleanHandler env signal signals v (Some b) = Inr (out, Some b')
         \<and> (b' \<longrightarrow> b))
   \<and> (\<exists>out b'. ignoreHandler signal signals v (Some b) = Inr (out, Some b')
         \<and> (b' \<longrightarrow> b))
   \<and> (\<exists>out b'. stateHandler env signal signals v (Some b) = Inr (out, Some b')
         \<and> (b' \<longrightarrow> b))
   \<and> (preTranslate env signal data (Some True) = Inr (val, Some False, vetoed) \<longrightarrow>
        translateSignal env pipeline signal data signals
          = Inr (pipeline, vetoed\<lparr>lastValue := val\<rparr>)
        \<and> translateSignal_float env pipeline signal data ignoreHandler signals
          = Inr (pipeline, vetoed\<lparr>lastValue := val\<rparr>)
        \<and> translateSignal_bool env pipeline signal data (booleanHandler env) signals
          = Inr (pipeline, vetoed\<lparr>lastValue := val\<rparr>)
        \<and> translateSignal_string env pipeline signal data (stateHandler env) signals
          = Inr (pipeline, vetoed\<lparr>lastValue := val\<rparr>))"
proof -
  have "\<exists>out b'. ignoreHandler signal signals v (Some b) = Inr (out, Some b') \<and> (b' \<longrightarrow> b)"
    by (auto simp add: ignoreHandler_def)
  then show ?thesis
    using preTranslate_never_sets [of env signal data b]
      stateHandler_never_sets [of env signal signals v b]
      vetoed_frame_not_sent [of env signal data val vetoed pipeline signals]
    by (simp add: passthroughHandler_def booleanHandler_def)
qed

theorem send_never_set_witness:
  "preTranslate demo_env demo_signal demo_frame (Some False)
     = Inr (100, Some False, demo_signal\<lparr>frequencyClock := False, received := True\<rparr>)
   \<and> passthroughHandler demo_signal [] (100::int) (Some False) = Inr (100, Some False)
   \<and> booleanHandler demo_env demo_signal [] 100 (Some False) = Inr (True, Some False)
   \<and> ignoreHandler demo_signal [] (100::int) (Some False) = Inr (100, Some False)
   \<and> stateHandler demo_env demo_signal [] 100 (Some False) = Inr (None, Some False)
   \<and> preTranslate demo_env idle_signal demo_frame (Some True)
       = Inr (100, Some False, idle_signal)
   \<and> translateSignal demo_env demo_pipeline idle_signal demo_frame []
       = Inr (demo_pipeline, idle_signal\<lparr>lastValue := 100\<rparr>)"
proof -
  have pre: "preTranslate demo_env idle_signal demo_frame (Some True)
       = Inr (100, Some False, idle_signal)"
    by (simp add: preTranslate_Some decodeSignal_def demo_env_def idle_signal_def
        demo_signal_def demo_frame_def)
  have rest: "preTranslate demo_env demo_signal demo_frame (Some False)
     = Inr (100, Some False, demo_signal\<lparr>frequencyClock := False, received := True\<rparr>)
   \<and> passthroughHandler demo_signal [] (100::int) (Some False) = Inr (100, Some False)
   \<and> booleanHandler demo_env demo_signal [] 100 (Some False) = Inr (True, Some False)
   \<and> ignoreHandler demo_signal [] (100::int) (Some False) = Inr (100, Some False)
   \<and> stateHandler demo_env demo_signal [] 100 (Some False) = Inr (None, Some False)"
    by (simp add: preTranslate_Some decodeSignal_def passthroughHandler_def
        booleanHandler_def ignoreHandler_def stateHandler_def demo_env_def demo_signal_def
        demo_frame_def)
  show ?thesis
    using pre rest
      send_never_set [where env = demo_env and signal = idle_signal and data = demo_frame
        and val = 100 and vetoed = idle_signal and pipeline = demo_pipeline
        and signals = "[]"]
    by simp
qed

subsection \<open>What a translation leaves in the signal\<close>

text \<open>
  C3. Let \<open>preTranslate\<close> return the value \<open>val\<close>, the flag \<open>send1\<close> and the signal
  \<open>signal1\<close>. Then \<open>val\<close> is the decoded value, and whenever a \<open>translateSignal\<close>
  (any of the three overloads, any handler) returns, the signal it leaves has
  \<open>lastValue = val\<close>, and has \<open>received\<close> set if \<open>preTranslate\<close> left the flag true. When
  the handler clears the flag, the call returns with the pipeline untouched and with
  \<open>signal1\<close> changed by \<open>lastValue := val\<close> only. The call does return, with that
  signal, whenever the handler returns and the JSON serialiser does not fail.
\<close>

theorem translateSignal_records:
  assumes pre: "preTranslate env signal data (Some True) = Inr (val, send1, signal1)"
  shows "val = decodeSignal env signal data
    \<and> (translateSignal_float env pipeline signal data hf signals = Inr (p1, s1)
         \<longrightarrow> lastValue s1 = val \<and> (send1 = Some True \<longrightarrow> received s1))
    \<and> (translateSignal_string env pipeline signal data hs signals = Inr (p2, s2)
         \<longrightarrow> lastValue s2 = val \<and> (send1 = Some True \<longrightarrow> received s2))
    \<and> (translateSignal_bool env pipeline signal data hb signals = Inr (p3, s3)
         \<longrightarrow> lastValue s3 = val \<and> (send1 = Some True \<longrightarrow> received s3))
    \<and> (hf signal1 signals val send1 = Inr (outf, Some False)
         \<longrightarrow> translateSignal_float env pipeline signal data hf signals
               = Inr (pipeline, signal1\<lparr>lastValue := val\<rparr>))
    \<and> (hs signal1 signals val send1 = Inr (outs, Some False)
         \<longrightarrow> translateSignal_string env pipeline signal data hs signals
               = Inr (pipeline, signal1\<lparr>lastValue := val\<rparr>))
    \<and> (hb signal1 signals val send1 = Inr (outb, Some False)
         \<longrightarrow> translateSignal_bool env pipeline signal data hb signals
               = Inr (pipeline, signal1\<lparr>lastValue := val\<rparr>))
    \<and> ((\<forall>r. cJSON_PrintUnformatted env r \<noteq> None) \<longrightarrow>
         (hf signal1 signals val send1 = Inr (outf, sendf)
           \<longrightarrow> (\<exists>p'. translateSignal_float env pipeline signal data hf signals
                        = Inr (p', signal1\<lparr>lastValue := val\<rparr>)))
         \<and> (hs signal1 signals val send1 = Inr (outs, sends)
           \<longrightarrow> (\<exists>p'. translateSignal_string env pipeline signal data hs signals
                        = Inr (p', signal1\<lparr>lastValue := val\<rparr>)))
         \<and> (hb signal1 signals val send1 = Inr (outb, sendb)
           \<longrightarrow> (\<exists>p'. translateSignal_bool env pipeline signal data hb signals
                        = Inr (p', signal1\<lparr>lastValue := val\<rparr>))))"
proof -
  note r = preTranslate_result [OF pre]
  have f: "translateSignal_float env pipeline signal data hf signals = Inr (p1, s1)
         \<longrightarrow> lastValue s1 = val \<and> (send1 = Some True \<longrightarrow> received s1)"
  proof
    assume "translateSignal_float env pipeline signal data hf signals = Inr (p1, s1)"
    then have "s1 = postTranslate signal1 val"
      by (rule translateSignal_float_after [OF pre])
    then show "lastValue s1 = val \<and> (send1 = Some True \<longrightarrow> received s1)"
      using r(2) by simp
  qed
  have s: "translateSignal_string env pipeline signal data hs signals = Inr (p2, s2)
         \<longrightarrow> lastValue s2 = val \<and> (send1 = Some True \<longrightarrow> received s2)"
  proof
    assume "translateSignal_string env pipeline signal data hs signals = Inr (p2, s2)"
    then have "s2 = postTranslate signal1 val"
      by (rule translateSignal_string_after [OF pre])
    then show "lastValue s2 = val \<and> (send1 = Some True \<longrightarrow> received s2)"
      using r(2) by simp
  qed
  have b: "translateSignal_bool env pipeline signal data hb signals = Inr (p3, s3)
         \<longrightarrow> lastValue s3 = val \<and> (send1 = Some True \<longrightarrow> received s3)"
  proof
    assume "translateSignal_bool env pipeline signal data hb signals = Inr (p3, s3)"
    then have "s3 = postTranslate signal1 val"
      by (rule translateSignal_bool_after [OF pre])
    then show "lastValue s3 = val \<and> (send1 = Some True \<longrightarrow> received s3)"
      using r(2) by simp
  qed
  have veto: "(hf signal1 signals val send1 = Inr (outf, Some False)
         \<longrightarrow> translateSignal_float env pipeline signal data hf signals
               = Inr (pipeline, signal1\<lparr>lastValue := val\<rparr>))
    \<and> (hs signal1 signals val send1 = Inr (outs, Some False)
         \<longrightarrow> translateSignal_string env pipeline signal data hs signals
               = Inr (pipeline, signal1\<lparr>lastValue := val\<rparr>))
    \<and> (hb signal1 signals val send1 = Inr (outb, Some False)
         \<longrightarrow> translateSignal_bool env pipeline signal data hb signals
               = Inr (pipeline, signal1\<lparr>lastValue := val\<rparr>))"
    using translateSignal_float_veto [OF pre, of hf signals outf pipeline]
      translateSignal_string_veto [OF pre, of hs signals outs pipeline]
      translateSignal_bool_veto [OF pre, of hb signals outb pipeline]
    by (simp add: postTranslate_def)
  have total: "(\<forall>r. cJSON_PrintUnformatted env r \<noteq> None) \<longrightarrow>
         (hf signal1 signals val send1 = Inr (outf, sendf)
           \<longrightarrow> (\<exists>p'. translateSignal_float env pipeline signal data hf signals
                        = Inr (p', signal1\<lparr>lastValue := val\<rparr>)))
         \<and> (hs signal1 signals val send1 = Inr (outs, sends)
           \<longrightarrow> (\<exists>p'. translateSignal_string env pipeline signal data hs signals
                        = Inr (p', signal1\<lparr>lastValue := val\<rparr>)))
         \<and> (hb signal1 signals val send1 = Inr (outb, sendb)
           \<longrightarrow> (\<exists>p'. translateSignal_bool env pipeline signal data hb signals
                        = Inr (p', signal1\<lparr>lastValue := val\<rparr>)))"
    using translateSignal_float_returns [OF pre, of hf signals outf sendf pipeline]
      translateSignal_string_returns [OF pre, of hs signals outs sends pipeline]
      translateSignal_bool_returns [OF pre, of hb signals outb sendb pipeline]
    by blast
  from r(1) f s b veto total show ?thesis
    by blast
qed

text \<open>
  The first frame of a signal under \<open>ignoreHandler\<close>: the gate lets it pass, the handler
  vetoes, nothing is sent, and the signal is received with the value recorded. Under
  \<open>passthroughHandler\<close> the same frame is sent, and the signal is left the same.
\<close>

theorem translateSignal_records_witness:
  "preTranslate demo_env demo_signal demo_frame (Some True)
     = Inr (100, Some True, demo_signal\<lparr>frequencyClock := False, received := True\<rparr>)
   \<and> ignoreHandler (demo_signal\<lparr>frequencyClock := False, received := True\<rparr>) [] (100::int)
       (Some True)
     = Inr (100, Some False)
   \<and> translateSignal_float demo_env demo_pipeline demo_signal demo_frame ignoreHandler []
     = Inr (demo_pipeline,
            demo_signal\<lparr>frequencyClock := False, received := True, lastValue := 100\<rparr>)
   \<and> translateSignal_float demo_env proto_pipeline demo_signal demo_frame passthroughHandler []
     = Inr (proto_pipeline\<lparr>sent := [''pb''], debugLog := [''Serialized to: '']\<rparr>,
            demo_signal\<lparr>frequencyClock := False, received := True, lastValue := 100\<rparr>)"
proof -
  have pre: "preTranslate demo_env demo_signal demo_frame (Some True)
     = Inr (100, Some True, demo_signal\<lparr>frequencyClock := False, received := True\<rparr>)"
    by (simp add: preTranslate_Some decodeSignal_def demo_env_def demo_signal_def
        demo_frame_def)
  have veto: "ignoreHandler (demo_signal\<lparr>frequencyClock := False, received := True\<rparr>) []
      (100::int) (Some True) = Inr (100, Some False)"
    by (simp add: ignoreHandler_def)
  have sending: "translateSignal_float demo_env proto_pipeline demo_signal demo_frame
      passthroughHandler []
     = Inr (proto_pipeline\<lparr>sent := [''pb''], debugLog := [''Serialized to: '']\<rparr>,
            demo_signal\<lparr>frequencyClock := False, received := True, lastValue := 100\<rparr>)"
    unfolding translateSignal_float_def pre
    by (simp add: passthroughHandler_def sendNumericalMessage_def sendMessage_def
        sendProtobuf_def postTranslate_def pipeline_sendMessage_def debug_def
        proto_pipeline_def demo_env_def demo_signal_def)
  show ?thesis
    using pre veto sending
      translateSignal_records [OF pre, of demo_pipeline ignoreHandler "[]" _ _ _ _ _ _ _ _ 100]
    by simp
qed

subsection \<open>Passthrough\<close>

text \<open>
  C4. Let \<open>due\<close> say: no definition is found and registration succeeds, or a definition
  is found and its clock is due or it forces changes and the payload differs from its
  \<open>lastValue\<close>. If \<open>due\<close> is false, \<open>passthroughMessage\<close> returns and the sink has
  received nothing. If \<open>due\<close> is true and the encoder of the configured format yields
  \<open>emitted\<close> for the frame (the protobuf encoding of the raw message; or the printed
  object of bus, id and hex data, followed by CR LF), it returns and the sink has received
  exactly \<open>emitted\<close>. Registration succeeds exactly when the table is not full.
\<close>

theorem passthroughMessage_emission:
  "(let due = (case lookupMessageDefinition bus i messages of
                 None \<Rightarrow> fst (registerMessageDefinition env bus i messages)
               | Some k \<Rightarrow>
                   fst (shouldTick env (msg_frequencyClock (definitions messages ! k)))
                   \<or> (msg_forceSendChanged (definitions messages ! k)
                         \<and> data \<noteq> msg_lastValue (definitions messages ! k)))
    in (\<not> due \<longrightarrow>
          (\<exists>pipeline' messages'.
             passthroughMessage env bus i data messages pipeline = Inr (pipeline', messages')
             \<and> sent pipeline' = sent pipeline))
     \<and> (due
        \<and> (outputFormat pipeline = PROTO \<longrightarrow>
             pb_encode_delimited env (RawMessage (address bus) i data) = Some emitted)
        \<and> (outputFormat pipeline = JSON \<longrightarrow>
             object_alloc env \<and> item_alloc env
             \<and> (\<exists>printed. cJSON_PrintUnformatted env (cJSON_Object
                    [(''bus'', cJSON_Number (float_of_int env (address bus))),
                     (''id'', cJSON_Number (float_of_int env (uint i))),
                     (''data'', cJSON_String (encodedData data))]) = Some printed
                  \<and> emitted = printed @ delimiter))
        \<longrightarrow> (\<exists>pipeline' messages'.
             passthroughMessage env bus i data messages pipeline = Inr (pipeline', messages')
             \<and> sent pipeline' = sent pipeline @ [emitted])))
   \<and> fst (registerMessageDefinition env bus i messages)
       = (length (definitions messages) < capacity messages)"
proof -
  have reg: "fst (registerMessageDefinition env bus i messages)
       = (length (definitions messages) < capacity messages)"
    by (simp add: registerMessageDefinition_def)
  show ?thesis
    unfolding Let_def
    using passthroughMessage_not_sent
        [where bus = bus and i = i and messages = messages and env = env and data = data
           and pipeline = pipeline]
      passthroughMessage_emitted
        [where bus = bus and i = i and messages = messages and env = env and data = data
           and pipeline = pipeline and emitted = emitted]
      reg
    by blast
qed

text \<open>
  A first sighting in protobuf format is sent; the known message with an idle clock is
  not; a first sighting in JSON format is sent as the printed object.
\<close>

theorem passthroughMessage_emission_witness:
  "lookupMessageDefinition demo_bus 0x42 empty_table = None
   \<and> fst (registerMessageDefinition demo_env demo_bus 0x42 empty_table)
   \<and> pb_encode_delimited demo_env (RawMessage (address demo_bus) 0x42 demo_payload) = Some ''pb''
   \<and> (\<exists>pipeline' messages'.
         passthroughMessage demo_env demo_bus 0x42 demo_payload empty_table proto_pipeline
           = Inr (pipeline', messages')
         \<and> sent pipeline' = sent proto_pipeline @ [''pb''])
   \<and> lookupMessageDefinition demo_bus 0x42 known_table = Some 0
   \<and> (\<exists>pipeline' messages'.
         passthroughMessage demo_env demo_bus 0x42 demo_payload known_table proto_pipeline
           = Inr (pipeline', messages')
         \<and> sent pipeline' = sent proto_pipeline)
   \<and> (\<exists>pipeline' messages'.
         passthroughMessage demo_env demo_bus 0x42 demo_payload empty_table demo_pipeline
           = Inr (pipeline', messages')
         \<and> sent pipeline' = sent demo_pipeline
             @ [print_json (cJSON_Object
                  [(''bus'', cJSON_Number 1), (''id'', cJSON_Number 0x42),
                   (''data'', cJSON_String ''0x0807060504030201'')]) @ delimiter])"
  using passthroughMessage_emission
      [where bus = demo_bus and i = "0x42" and messages = empty_table and env = demo_env
         and data = demo_payload and pipeline = proto_pipeline and emitted = "''pb''"]
    passthroughMessage_emission
      [where bus = demo_bus and i = "0x42" and messages = known_table and env = demo_env
         and data = demo_payload and pipeline = proto_pipeline and emitted = "''pb''"]
    passthroughMessage_emission
      [where bus = demo_bus and i = "0x42" and messages = empty_table and env = demo_env
         and data = demo_payload and pipeline = demo_pipeline
         and emitted = "print_json (cJSON_Object
                  [(''bus'', cJSON_Number 1), (''id'', cJSON_Number 0x42),
                   (''data'', cJSON_String ''0x0807060504030201'')]) @ delimiter"]
  by (simp add: lookupMessageDefinition_def registerMessageDefinition_def demo_env_def
      demo_bus_def empty_table_def known_table_def proto_pipeline_def demo_pipeline_def
      demo_payload_def encodedData_def frame_bytes_def hex_byte_def hex_digit_def upt_rec
      drop_bit_eq_div)

text \<open>
  C5, as stated, fails for a definition registered during the call: the pointer that
  guards the final write is the one the lookup returned at entry, NULL here, so the new
  entry keeps the \<open>lastValue\<close> of the slot (0) and not the payload.
\<close>

theorem registered_lastValue_counterexample:
  "lookupMessageDefinition demo_bus 0x42 empty_table = None
   \<and> passthroughMessage demo_env demo_bus 0x42 demo_payload empty_table proto_pipeline
     = Inr (\<lparr>outputFormat = PROTO, sent = [''pb''],
              debugLog = [''Adding new message definition for message %d on bus %d'',
                          ''Serialized to: '']\<rparr>,
            \<lparr>definitions = [\<lparr>msg_bus = 1, msg_id = 0x42, msg_frequencyClock = False,
                 msg_forceSendChanged = False, msg_lastValue = 0\<rparr>], capacity = 1\<rparr>)
   \<and> demo_payload \<noteq> 0"
  by (simp add: passthrough_eval demo_env_def demo_bus_def empty_table_def proto_pipeline_def
      demo_payload_def)

text \<open>
  C5, amended. For a pair whose definition the lookup finds at entry, every call that
  returns leaves that definition in place with \<open>lastValue\<close> equal to the payload,
  emitted or not; and when the send decision is negative the call returns with the
  pipeline untouched.
\<close>

theorem passthroughMessage_records_payload:
  assumes found: "lookupMessageDefinition bus i messages = Some k"
  shows "(passthroughMessage env bus i data messages pipeline = Inr (pipeline', messages')
          \<longrightarrow> lookupMessageDefinition bus i messages' = Some k
              \<and> k < length (definitions messages')
              \<and> msg_lastValue (definitions messages' ! k) = data)
       \<and> (\<not> (fst (shouldTick env (msg_frequencyClock (definitions messages ! k)))
              \<or> (msg_forceSendChanged (definitions messages ! k)
                    \<and> data \<noteq> msg_lastValue (definitions messages ! k)))
          \<longrightarrow> (\<exists>messages''. passthroughMessage env bus i data messages pipeline
                               = Inr (pipeline, messages'')))"
proof -
  note k = lookup_Some [OF found]
  let ?m1 = "modify_definition k
      (\<lambda>d. d\<lparr>msg_frequencyClock :=
               snd (shouldTick env (msg_frequencyClock (definitions messages ! k)))\<rparr>) messages"
  let ?m2 = "modify_definition k (\<lambda>d. d\<lparr>msg_lastValue := data\<rparr>) ?m1"
  have look: "lookupMessageDefinition bus i ?m2 = Some k"
    using found by (simp add: lookup_modify)
  have len: "k < length (definitions ?m2)"
    using k by (simp add: modify_definition_def)
  have last: "msg_lastValue (definitions ?m2 ! k) = data"
    using k by (simp add: modify_definition_def)
  have after: "passthroughMessage env bus i data messages pipeline = Inr (pipeline', messages')
      \<Longrightarrow> messages' = ?m2"
    by (auto simp add: passthroughMessage_Some [OF found] Let_def bind_result_def
        split: sum.splits if_splits)
  have quiet: "\<not> (fst (shouldTick env (msg_frequencyClock (definitions messages ! k)))
              \<or> (msg_forceSendChanged (definitions messages ! k)
                    \<and> data \<noteq> msg_lastValue (definitions messages ! k)))
      \<Longrightarrow> passthroughMessage env bus i data messages pipeline = Inr (pipeline, ?m2)"
    by (auto simp add: passthroughMessage_Some [OF found] Let_def)
  show ?thesis
    using look len last after quiet by blast
qed

theorem passthroughMessage_records_payload_witness:
  "lookupMessageDefinition demo_bus 0x42 known_table = Some 0
   \<and> passthroughMessage demo_env demo_bus 0x42 demo_payload known_table proto_pipeline
     = Inr (proto_pipeline,
            \<lparr>definitions = [\<lparr>msg_bus = 1, msg_id = 0x42, msg_frequencyClock = False,
                 msg_forceSendChanged = False, msg_lastValue = demo_payload\<rparr>], capacity = 1\<rparr>)"
proof -
  have found: "lookupMessageDefinition demo_bus 0x42 known_table = Some 0"
    by (simp add: lookupMessageDefinition_def demo_bus_def known_table_def)
  show ?thesis
    using found
      passthroughMessage_records_payload
        [OF found, where env = demo_env and data = demo_payload and pipeline = proto_pipeline]
    by (simp add: passthrough_eval demo_env_def demo_bus_def known_table_def
        proto_pipeline_def demo_payload_def)
qed

subsection \<open>Failures of emission\<close>

text \<open>
  C6 does not hold of the code. For a message of the raw type and a pipeline that is not
  in protobuf format, \<open>sendMessage\<close> logs, leaves the switch and calls
  \<open>sendJsonMessage\<close> with \<open>name\<close> and \<open>value\<close> never assigned: the message is not dropped.
\<close>

theorem sendMessage_unrecognized_type:
  assumes "outputFormat pipeline = JSON"
  shows "sendMessage env (RawMessage b i d) pipeline = Inl UninitializedRead"
  using assms by (simp add: sendMessage_def read_local_def)

theorem sendMessage_unrecognized_type_witness:
  "outputFormat demo_pipeline = JSON
   \<and> sendMessage demo_env (RawMessage 1 0x42 0x0102030405060708) demo_pipeline
       = Inl UninitializedRead"
proof -
  have h: "outputFormat demo_pipeline = JSON" by (simp add: demo_pipeline_def)
  show ?thesis
    using h sendMessage_unrecognized_type [OF h, of demo_env 1 "0x42" "0x0102030405060708"]
    by simp
qed

text \<open>
  C7 holds for a failed \<open>cJSON_CreateObject\<close> and for a NULL root, which are logged and
  dropped, and does not hold for a failed \<open>cJSON_PrintUnformatted\<close>: \<open>sendJSON\<close> passes
  the NULL text to \<open>strlen\<close> before it tests it.
\<close>

theorem json_failure_paths:
  "(\<not> object_alloc env \<longrightarrow>
      sendJsonMessage env name val event pipeline
        = Inr (debug ''Unable to allocate a cJSON object - probably OOM'' pipeline))
   \<and> sendJSON env None pipeline = Inr (debug ''JSON object is NULL -- probably OOM'' pipeline)
   \<and> (cJSON_PrintUnformatted env root = None \<longrightarrow>
      sendJSON env (Some root) pipeline = Inl NullDereference)
   \<and> (object_alloc env \<and> (\<forall>r. cJSON_PrintUnformatted env r = None) \<longrightarrow>
      sendJsonMessage env name val event pipeline = Inl NullDereference)"
  by (simp add: sendJsonMessage_def cJSON_CreateObject_def sendJSON_print_NULL Let_def)
     (simp add: sendJSON_def)

theorem json_failure_paths_witness:
  "cJSON_PrintUnformatted failing_printer_env (cJSON_Object []) = None
   \<and> sendJSON failing_printer_env (Some (cJSON_Object [])) demo_pipeline = Inl NullDereference
   \<and> sendJsonMessage failing_printer_env ''speed'' (Some (cJSON_Number 100)) None demo_pipeline
       = Inl NullDereference
   \<and> sendJsonMessage (demo_env\<lparr>object_alloc := False\<rparr>) ''speed'' (Some (cJSON_Number 100)) None demo_pipeline
       = Inr (demo_pipeline\<lparr>debugLog := [''Unable to allocate a cJSON object - probably OOM'']\<rparr>)"
  using json_failure_paths [of failing_printer_env "''speed''" "Some (cJSON_Number 100)" None
      demo_pipeline "cJSON_Object []"]
    json_failure_paths [of "demo_env\<lparr>object_alloc := False\<rparr>" "''speed''" "Some (cJSON_Number 100)" None
      demo_pipeline "cJSON_Object []"]
  by (simp add: failing_printer_env_def demo_env_def demo_pipeline_def debug_def)

subsection \<open>Evented messages\<close>

text \<open>
  C8, as stated, fails: with a pipeline in protobuf format an evented message is not
  encoded and nothing reaches the sink.
\<close>

theorem evented_proto_counterexample:
  "outputFormat proto_pipeline = PROTO
   \<and> sendEventedFloatMessage demo_env ''button'' ''ok'' 1 proto_pipeline = Inr proto_pipeline
   \<and> sent proto_pipeline = []"
  by (simp add: sendEventedFloatMessage_def sendMessage_cJSON_def proto_pipeline_def)

text \<open>
  C8, amended. With a pipeline in protobuf format the three evented senders return the
  pipeline as it was. With a pipeline in JSON format, and allocation succeeding, each
  sends the printed object of name, value and event, followed by CR LF.
\<close>

theorem evented_dispatch:
  "(outputFormat pipeline = PROTO \<longrightarrow>
      sendEventedFloatMessage env name val fe pipeline = Inr pipeline
      \<and> sendEventedBooleanMessage env name val be pipeline = Inr pipeline
      \<and> sendEventedStringMessage env name val se pipeline = Inr pipeline)
   \<and> (outputFormat pipeline = JSON \<and> object_alloc env \<and> item_alloc env \<longrightarrow>
      (cJSON_PrintUnformatted env (cJSON_Object
          [(''name'', cJSON_String name), (''value'', cJSON_String val),
           (''event'', cJSON_Number fe)]) = Some ftext
        \<longrightarrow> sendEventedFloatMessage env name val fe pipeline
              = Inr (pipeline_sendMessage pipeline (ftext @ delimiter)))
      \<and> (cJSON_PrintUnformatted env (cJSON_Object
          [(''name'', cJSON_String name), (''value'', cJSON_String val),
           (''event'', cJSON_Bool be)]) = Some btext
        \<longrightarrow> sendEventedBooleanMessage env name val be pipeline
              = Inr (pipeline_sendMessage pipeline (btext @ delimiter)))
      \<and> (cJSON_PrintUnformatted env (cJSON_Object
          [(''name'', cJSON_String name), (''value'', cJSON_String val),
           (''event'', cJSON_String se)]) = Some stext
        \<longrightarrow> sendEventedStringMessage env name val se pipeline
              = Inr (pipeline_sendMessage pipeline (stext @ delimiter))))"
  by (simp add: sendEventedFloatMessage_def sendEventedBooleanMessage_def
      sendEventedStringMessage_def sendMessage_cJSON_def cJSON_CreateString_def
      cJSON_CreateNumber_def cJSON_CreateBool_def sendJsonMessage_ok)

theorem evented_dispatch_witness:
  "sendEventedBooleanMessage demo_env ''button'' ''ok'' True demo_pipeline
     = Inr (demo_pipeline\<lparr>sent :=
         [[CHR ''{'', CHR 0x22] @ ''name'' @ [CHR 0x22] @ '':'' @ [CHR 0x22] @ ''button'' @ [CHR 0x22]
           @ '','' @ [CHR 0x22] @ ''value'' @ [CHR 0x22] @ '':'' @ [CHR 0x22] @ ''ok'' @ [CHR 0x22]
           @ '','' @ [CHR 0x22] @ ''event'' @ [CHR 0x22] @ '':true}'' @ [CHR 0x0D, CHR 0x0A]]\<rparr>)
   \<and> sendEventedBooleanMessage demo_env ''button'' ''ok'' True proto_pipeline = Inr proto_pipeline"
  using evented_dispatch [of demo_pipeline demo_env "''button''" "''ok''" 0 True "''x''" _
      "print_json (cJSON_Object [(''name'', cJSON_String ''button''),
         (''value'', cJSON_String ''ok''), (''event'', cJSON_Bool True)])"]
    evented_dispatch [of proto_pipeline demo_env "''button''" "''ok''" 0 True "''x''"]
  by (simp add: demo_env_def demo_pipeline_def proto_pipeline_def pipeline_sendMessage_def
      delimiter_def)

end
